theory Spec2Isabelle
  imports Complex_Main
begin

section \<open>Python values\<close>

subsection \<open>Floating-point values\<close>

text \<open>
  The numbers the analysis handles are IEEE 754 floats (NumPy scalars and Python
  \<^verbatim>\<open>float\<close>). A value is a finite number, one of the two infinities or NaN. The finite
  values are modelled by the reals, rounding and overflow are not modelled, and the
  two zeros are one value, taken as the positive zero. What the analysis depends on is
  kept: NaN compares false with everything, division by zero on NumPy scalars gives an
  infinity or NaN (with a warning, never an exception), and NaN propagates through
  arithmetic.
\<close>

datatype pyfloat = Fin real | PInf | NInf | NaN

text \<open>\<^verbatim>\<open>a < b\<close> and \<^verbatim>\<open>a > b\<close> on floats.\<close>

definition flt :: "pyfloat \<Rightarrow> pyfloat \<Rightarrow> bool" where
  "flt a b =
     (case a of
        NaN \<Rightarrow> False
      | NInf \<Rightarrow> (case b of NaN \<Rightarrow> False | NInf \<Rightarrow> False | _ \<Rightarrow> True)
      | PInf \<Rightarrow> False
      | Fin x \<Rightarrow> (case b of NaN \<Rightarrow> False | NInf \<Rightarrow> False | PInf \<Rightarrow> True | Fin y \<Rightarrow> x < y))"

definition fgt :: "pyfloat \<Rightarrow> pyfloat \<Rightarrow> bool" where
  "fgt a b = flt b a"

text \<open>
  The builtins \<^verbatim>\<open>min(a, b)\<close> and \<^verbatim>\<open>max(a, b)\<close>: the first argument is kept unless
  the second compares strictly below (above) it.
\<close>

definition py_min :: "pyfloat \<Rightarrow> pyfloat \<Rightarrow> pyfloat" where
  "py_min a b = (if flt b a then b else a)"

definition py_max :: "pyfloat \<Rightarrow> pyfloat \<Rightarrow> pyfloat" where
  "py_max a b = (if fgt b a then b else a)"

definition fneg :: "pyfloat \<Rightarrow> pyfloat" where
  "fneg a = (case a of Fin x \<Rightarrow> Fin (- x) | PInf \<Rightarrow> NInf | NInf \<Rightarrow> PInf | NaN \<Rightarrow> NaN)"

definition fadd :: "pyfloat \<Rightarrow> pyfloat \<Rightarrow> pyfloat" where
  "fadd a b =
     (case a of
        NaN \<Rightarrow> NaN
      | PInf \<Rightarrow> (case b of NaN \<Rightarrow> NaN | NInf \<Rightarrow> NaN | _ \<Rightarrow> PInf)
      | NInf \<Rightarrow> (case b of NaN \<Rightarrow> NaN | PInf \<Rightarrow> NaN | _ \<Rightarrow> NInf)
      | Fin x \<Rightarrow> (case b of Fin y \<Rightarrow> Fin (x + y) | other \<Rightarrow> other))"

definition fsub :: "pyfloat \<Rightarrow> pyfloat \<Rightarrow> pyfloat" where
  "fsub a b = fadd a (fneg b)"

text \<open>The sign of a value that is not NaN: \<open>1\<close>, \<open>0\<close> or \<open>-1\<close>.\<close>

definition fsign :: "pyfloat \<Rightarrow> int" where
  "fsign a = (case a of Fin x \<Rightarrow> (if x < 0 then - 1 else if x = 0 then 0 else 1)
                       | PInf \<Rightarrow> 1 | NInf \<Rightarrow> - 1 | NaN \<Rightarrow> 0)"

definition finf :: "int \<Rightarrow> pyfloat" where
  "finf s = (if s < 0 then NInf else PInf)"

definition fmul :: "pyfloat \<Rightarrow> pyfloat \<Rightarrow> pyfloat" where
  "fmul a b =
     (case (a, b) of
        (NaN, _) \<Rightarrow> NaN
      | (_, NaN) \<Rightarrow> NaN
      | (Fin x, Fin y) \<Rightarrow> Fin (x * y)
      | _ \<Rightarrow> (if fsign a * fsign b = 0 then NaN else finf (fsign a * fsign b)))"

definition fdiv :: "pyfloat \<Rightarrow> pyfloat \<Rightarrow> pyfloat" where
  "fdiv a b =
     (case (a, b) of
        (NaN, _) \<Rightarrow> NaN
      | (_, NaN) \<Rightarrow> NaN
      | (Fin x, Fin y) \<Rightarrow>
          (if y = 0 then (if x = 0 then NaN else finf (fsign a)) else Fin (x / y))
      | (Fin x, _) \<Rightarrow> Fin 0
      | (_, Fin y) \<Rightarrow> finf (if y < 0 then - fsign a else fsign a)
      | _ \<Rightarrow> NaN)"

definition fsqrt :: "pyfloat \<Rightarrow> pyfloat" where
  "fsqrt a = (case a of Fin x \<Rightarrow> (if x < 0 then NaN else Fin (sqrt x))
                       | PInf \<Rightarrow> PInf | NInf \<Rightarrow> NaN | NaN \<Rightarrow> NaN)"

text \<open>A float lies in the closed interval from 0.0 to 1.0; NaN and the infinities do not.\<close>

definition in_unit :: "pyfloat \<Rightarrow> bool" where
  "in_unit v = (case v of Fin r \<Rightarrow> 0 \<le> r \<and> r \<le> 1 | _ \<Rightarrow> False)"

subsection \<open>NumPy reductions\<close>

text \<open>
  \<^verbatim>\<open>np.mean(a)\<close> is the sum of the elements divided by their number, and
  \<^verbatim>\<open>np.std(a)\<close> (with its default \<^verbatim>\<open>ddof=0\<close>) is the square root of the mean of the
  squared deviations from that mean.
\<close>

definition np_sum :: "pyfloat list \<Rightarrow> pyfloat" where
  "np_sum xs = foldl fadd (Fin 0) xs"

definition np_mean :: "pyfloat list \<Rightarrow> pyfloat" where
  "np_mean xs = fdiv (np_sum xs) (Fin (real (length xs)))"

definition np_std :: "pyfloat list \<Rightarrow> pyfloat" where
  "np_std xs =
     (let arrmean = np_mean xs;
          x = map (\<lambda>v. fsub v arrmean) xs;
          x2 = map (\<lambda>d. fmul d d) x
      in fsqrt (fdiv (np_sum x2) (Fin (real (length xs)))))"

subsection \<open>Strings, values and exceptions\<close>

text \<open>
  A Python \<^verbatim>\<open>str\<close> is a sequence of Unicode code points.
\<close>

type_synonym pystr = "nat list"

definition ascii :: "string \<Rightarrow> pystr" where
  "ascii s = map of_char s"

text \<open>
  The values that occur: what \<^verbatim>\<open>json.loads\<close> can return and what \<^verbatim>\<open>json.dumps\<close>
  is given. A dictionary is the list of its items.
\<close>

datatype pyval =
    PNone
  | PBool bool
  | PInt int
  | PFloat pyfloat
  | PStr pystr
  | PList "pyval list"
  | PDict "(pystr \<times> pyval) list"

text \<open>\<^verbatim>\<open>d.get(k)\<close> on a dictionary, and the truth value \<^verbatim>\<open>not v\<close> negates.\<close>

definition dict_get :: "pyval \<Rightarrow> pystr \<Rightarrow> pyval option" where
  "dict_get d k = (case d of PDict kvs \<Rightarrow> map_of kvs k | _ \<Rightarrow> None)"

definition truthy :: "pyval \<Rightarrow> bool" where
  "truthy v =
     (case v of
        PNone \<Rightarrow> False
      | PBool b \<Rightarrow> b
      | PInt i \<Rightarrow> i \<noteq> 0
      | PFloat f \<Rightarrow> f \<noteq> Fin 0
      | PStr s \<Rightarrow> s \<noteq> []
      | PList vs \<Rightarrow> vs \<noteq> []
      | PDict kvs \<Rightarrow> kvs \<noteq> [])"

definition type_name :: "pyval \<Rightarrow> pystr" where
  "type_name v =
     (case v of
        PNone \<Rightarrow> ascii ''NoneType''
      | PBool _ \<Rightarrow> ascii ''bool''
      | PInt _ \<Rightarrow> ascii ''int''
      | PFloat _ \<Rightarrow> ascii ''float''
      | PStr _ \<Rightarrow> ascii ''str''
      | PList _ \<Rightarrow> ascii ''list''
      | PDict _ \<Rightarrow> ascii ''dict'')"

text \<open>
  An exception is its class and its message \<^verbatim>\<open>str(e)\<close>. Only subclasses of
  \<^verbatim>\<open>Exception\<close> are modelled, the ones \<^verbatim>\<open>except Exception\<close> catches.
  \<open>EngineError\<close> stands for whatever class the audio engine raises.
\<close>

datatype exc_class =
    TypeError | ValueError | AttributeError | IndexError
  | UnicodeDecodeError | UnicodeEncodeError | JSONDecodeError | EngineError

datatype py_exc = Exc exc_class pystr

fun exc_str :: "py_exc \<Rightarrow> pystr" where
  "exc_str (Exc c msg) = msg"

fun exc_cls :: "py_exc \<Rightarrow> exc_class" where
  "exc_cls (Exc c msg) = c"

subsection \<open>The \<^verbatim>\<open>%\<close> operator with no arguments\<close>

text \<open>
  \<^verbatim>\<open>format % ()\<close>, as CPython 3.11 evaluates it when the argument tuple is empty.
  Text outside directives is copied, and \<^verbatim>\<open>%%\<close> writes a percent sign. Any other
  directive is \<^verbatim>\<open>%\<close>, flags, a width, a precision, a length modifier and a conversion
  character, and it raises: a conversion character (a second \<^verbatim>\<open>%\<close> after flags or
  a width included) and a \<^verbatim>\<open>*\<close> width or precision ask for an argument that is not
  there, a parenthesis asks for a mapping, and a directive cut off by the end of the
  text is incomplete. Widths are bounded by \<^verbatim>\<open>PY_SSIZE_T_MAX\<close> (here of a 64-bit
  build) and precisions by \<^verbatim>\<open>INT_MAX\<close>.
\<close>

definition is_flag :: "nat \<Rightarrow> bool" where
  "is_flag c = (c = 45 \<or> c = 43 \<or> c = 32 \<or> c = 35 \<or> c = 48)"

definition is_digit :: "nat \<Rightarrow> bool" where
  "is_digit c = (48 \<le> c \<and> c \<le> 57)"

fun more_digits :: "nat \<Rightarrow> nat \<Rightarrow> pystr \<Rightarrow> pystr option" where
  "more_digits bound n [] = Some []"
| "more_digits bound n (c # cs) =
     (if \<not> is_digit c then Some (c # cs)
      else if n > (bound - (c - 48)) div 10 then None
      else more_digits bound (n * 10 + (c - 48)) cs)"

definition read_number :: "nat \<Rightarrow> pystr \<Rightarrow> pystr option" where
  "read_number bound s =
     (case s of
        [] \<Rightarrow> Some []
      | c # cs \<Rightarrow> if is_digit c then more_digits bound (c - 48) cs else Some (c # cs))"

definition not_enough_arguments :: py_exc where
  "not_enough_arguments = Exc TypeError (ascii ''not enough arguments for format string'')"

text \<open>
  The end of a directive that is not \<^verbatim>\<open>%%\<close>: after an optional \<^verbatim>\<open>h\<close>, \<^verbatim>\<open>l\<close> or
  \<^verbatim>\<open>L\<close> comes the conversion character, for which there is no argument.
\<close>

definition conversion :: "pystr \<Rightarrow> py_exc" where
  "conversion s =
     (let s' = (case s of
                  [] \<Rightarrow> []
                | c # cs \<Rightarrow> if c = 104 \<or> c = 108 \<or> c = 76 then cs else c # cs)
      in case s' of
           [] \<Rightarrow> Exc ValueError (ascii ''incomplete format'')
         | c # cs \<Rightarrow> not_enough_arguments)"

definition precision :: "pystr \<Rightarrow> py_exc" where
  "precision s =
     (case s of
        [] \<Rightarrow> conversion []
      | c # cs \<Rightarrow>
          if c = 46 then
            (case cs of
               [] \<Rightarrow> conversion []
             | d # ds \<Rightarrow>
                 if d = 42 then not_enough_arguments
                 else (case read_number 2147483647 (d # ds) of
                         None \<Rightarrow> Exc ValueError (ascii ''precision too big'')
                       | Some rest \<Rightarrow> conversion rest))
          else conversion (c # cs))"

text \<open>
  The text after a \<^verbatim>\<open>%\<close>: what follows the directive when it is \<^verbatim>\<open>%%\<close>, and the
  exception otherwise.
\<close>

definition directive :: "pystr \<Rightarrow> py_exc + pystr" where
  "directive s =
     (case s of
        [] \<Rightarrow> Inl (conversion [])
      | c # cs \<Rightarrow>
          if c = 37 then Inr cs
          else if c = 40 then Inl (Exc TypeError (ascii ''format requires a mapping''))
          else (case dropWhile is_flag (c # cs) of
                  [] \<Rightarrow> Inl (conversion [])
                | w # ws \<Rightarrow>
                    if w = 42 then Inl not_enough_arguments
                    else (case read_number 9223372036854775807 (w # ws) of
                            None \<Rightarrow> Inl (Exc ValueError (ascii ''width too big''))
                          | Some rest \<Rightarrow> Inl (precision rest))))"

lemma directive_shorter: "directive s = Inr r \<Longrightarrow> length r < length s"
  unfolding directive_def
  by (cases s) (auto split: if_splits list.splits option.splits)

text \<open>
  The scan of the whole format string. It ends because a directive that does not raise
  leaves less text than it was given.
\<close>

function percent_scan :: "pystr \<Rightarrow> py_exc + pystr" where
  "percent_scan [] = Inr []"
| "percent_scan (c # cs) =
     (if c = 37 then
        (case directive cs of
           Inl e \<Rightarrow> Inl e
         | Inr rest \<Rightarrow> (case percent_scan rest of
                          Inl e \<Rightarrow> Inl e
                        | Inr out \<Rightarrow> Inr (37 # out)))
      else (case percent_scan cs of
              Inl e \<Rightarrow> Inl e
            | Inr out \<Rightarrow> Inr (c # out)))"
  by pat_completeness auto
termination
  by (relation "measure length") (auto dest: directive_shorter)

definition percent_format :: "pystr \<Rightarrow> py_exc + pystr" where
  "percent_format format = percent_scan format"

subsection \<open>JSON text and its encoding\<close>

text \<open>
  \<^verbatim>\<open>json.dumps(v, ensure_ascii=False)\<close> writes numbers, \<^verbatim>\<open>null\<close>, \<^verbatim>\<open>true\<close>,
  \<^verbatim>\<open>false\<close>, punctuation and escapes in ASCII and copies every other character of a
  string or a key as it is. So the characters of the text above ASCII are those of the
  strings and keys of the value, which is all that the encoding of the text depends
  on. They are listed here; the text itself is not modelled.
\<close>

definition above_ascii :: "pystr \<Rightarrow> nat list" where
  "above_ascii s = filter (\<lambda>c. 128 \<le> c) s"

primrec text_chars :: "pyval \<Rightarrow> nat list" where
  "text_chars PNone = []"
| "text_chars (PBool b) = []"
| "text_chars (PInt i) = []"
| "text_chars (PFloat f) = []"
| "text_chars (PStr s) = above_ascii s"
| "text_chars (PList vs) = concat (map text_chars vs)"
| "text_chars (PDict kvs) =
     concat (map (\<lambda>kc. above_ascii (fst kc) @ snd kc) (map (map_prod id text_chars) kvs))"

text \<open>
  \<^verbatim>\<open>text.encode('utf-8')\<close> raises \<^verbatim>\<open>UnicodeEncodeError\<close> exactly when the text
  holds a surrogate code point, which a JSON escape such as \<^verbatim>\<open>"\ud800"\<close> or an
  undecodable byte of a command-line argument puts into a string.
\<close>

definition surrogate :: "nat \<Rightarrow> bool" where
  "surrogate c = (55296 \<le> c \<and> c \<le> 57343)"

definition utf8_encodable :: "pyval \<Rightarrow> bool" where
  "utf8_encodable v = list_all (\<lambda>c. \<not> surrogate c) (text_chars v)"

section \<open>The environment\<close>

text \<open>
  What the rhythm extractor returns: \<^verbatim>\<open>bpm, beats, beats_confidence, _,
  beats_intervals\<close> (the fourth component is dropped by the source).
\<close>

record extraction =
  ex_bpm :: pyfloat
  ex_beats :: "pyfloat list"
  ex_confidence :: pyfloat
  ex_intervals :: "pyfloat list"

text \<open>
  Everything outside the two scripts is a parameter: whether \<^verbatim>\<open>import essentia\<close>
  succeeded, \<^verbatim>\<open>os.path.exists\<close>, the loader \<^verbatim>\<open>es.MonoLoader(filename=p)()\<close>, the
  extractor \<^verbatim>\<open>es.RhythmExtractor2013(method="multifeature")(audio)\<close>, the outcome of
  constructing \<^verbatim>\<open>es.MonoLoader()\<close> and \<^verbatim>\<open>es.RhythmExtractor2013()\<close> without
  arguments, \<^verbatim>\<open>traceback.format_exc()\<close>, \<^verbatim>\<open>str(v)\<close> for a value that is not a
  string, and \<^verbatim>\<open>repr(s)\<close> of a string. Each call of the first four may raise.

  Standard output is a text stream with an encoding and an error handler:
  \<open>stdout_encodes\<close> tells which characters above ASCII it can encode (ASCII it always
  can), and \<open>stdout_error\<close> is the message of the \<^verbatim>\<open>UnicodeEncodeError\<close> that
  \<^verbatim>\<open>print\<close> raises for a text it cannot encode. \<open>utf8_error\<close> is the message of the
  one that \<^verbatim>\<open>encode('utf-8')\<close> raises for the JSON text of a value.

  \<open>is_file\<close> tells whether a path resolves to an existing regular file
  (\<^verbatim>\<open>os.path.isfile\<close>). The scripts never ask; \<^verbatim>\<open>os.path.exists\<close>, which they
  do ask, also answers yes for a directory.
\<close>

record runtime =
  essentia_imported :: bool
  path_exists :: "pyval \<Rightarrow> py_exc + bool"
  is_file :: "pyval \<Rightarrow> bool"
  mono_loader :: "pyval \<Rightarrow> py_exc + pyfloat list"
  rhythm_extractor :: "pyfloat list \<Rightarrow> py_exc + extraction"
  probe :: "py_exc option"
  format_exc :: "py_exc \<Rightarrow> pystr"
  py_str :: "pyval \<Rightarrow> pystr"
  py_repr :: "pystr \<Rightarrow> pystr"
  stdout_encodes :: "nat \<Rightarrow> bool"
  stdout_error :: "pystr \<Rightarrow> pystr"
  utf8_error :: "pyval \<Rightarrow> pystr"

text \<open>
  \<^verbatim>\<open>print(text)\<close>: nothing is written and \<^verbatim>\<open>UnicodeEncodeError\<close> is raised when
  standard output cannot encode a character of the text. Other failures of the stream
  and of the socket are not modelled.
\<close>

definition printable :: "runtime \<Rightarrow> nat list \<Rightarrow> bool" where
  "printable rt chars = list_all (stdout_encodes rt) chars"

definition print_text :: "runtime \<Rightarrow> pystr \<Rightarrow> py_exc option" where
  "print_text rt text =
     (if printable rt (above_ascii text) then None
      else Some (Exc UnicodeEncodeError (stdout_error rt text)))"

text \<open>The replacement field \<^verbatim>\<open>{audio_path}\<close> of an f-string.\<close>

definition fmt_value :: "runtime \<Rightarrow> pyval \<Rightarrow> pystr" where
  "fmt_value rt v = (case v of PStr s \<Rightarrow> s | _ \<Rightarrow> py_str rt v)"

section \<open>Messages\<close>

text \<open>
  The Russian literals of the source, by code point. Each is named by what it says.
\<close>

text \<open>"Essentia is not installed" (analyzer line 16, service line 107).\<close>

definition msg_not_installed :: pystr where
  "msg_not_installed = ascii ''Essentia '' @
     [0x43d, 0x435, 0x20, 0x443, 0x441, 0x442, 0x430, 0x43d, 0x43e, 0x432, 0x43b, 0x435,
      0x43d, 0x430]"

text \<open>"Audio file not found: " (analyzer line 31, service line 111).\<close>

definition msg_not_found :: pystr where
  "msg_not_found =
     [0x410, 0x443, 0x434, 0x438, 0x43e, 0x20, 0x444, 0x430, 0x439, 0x43b, 0x20, 0x43d,
      0x435, 0x20, 0x43d, 0x430, 0x439, 0x434, 0x435, 0x43d, 0x3a, 0x20]"

text \<open>"Audio file is empty or damaged" (analyzer line 38, service line 118).\<close>

definition msg_empty_audio :: pystr where
  "msg_empty_audio =
     [0x410, 0x443, 0x434, 0x438, 0x43e, 0x20, 0x444, 0x430, 0x439, 0x43b, 0x20, 0x43f,
      0x443, 0x441, 0x442, 0x20, 0x438, 0x43b, 0x438, 0x20, 0x43f, 0x43e, 0x432, 0x440,
      0x435, 0x436, 0x434, 0x435, 0x43d]"

text \<open>"Audio analysis error: " (analyzer line 66, service line 146).\<close>

definition msg_analysis_error :: pystr where
  "msg_analysis_error =
     [0x41e, 0x448, 0x438, 0x431, 0x43a, 0x430, 0x20, 0x430, 0x43d, 0x430, 0x43b, 0x438,
      0x437, 0x430, 0x20, 0x430, 0x443, 0x434, 0x438, 0x43e, 0x3a, 0x20]"

text \<open>"Essentia is available" (analyzer line 79).\<close>

definition msg_available :: pystr where
  "msg_available = ascii ''Essentia '' @
     [0x434, 0x43e, 0x441, 0x442, 0x443, 0x43f, 0x43d, 0x430]"

text \<open>"Essentia is unavailable" (analyzer line 81, service lines 78 and 94).\<close>

definition msg_unavailable :: pystr where
  "msg_unavailable = ascii ''Essentia '' @
     [0x43d, 0x435, 0x434, 0x43e, 0x441, 0x442, 0x443, 0x43f, 0x43d, 0x430]"

text \<open>
  "Usage: python3 essentia_analyzer.py <audio_file_path> or --test" (analyzer line 86).
\<close>

definition msg_usage :: pystr where
  "msg_usage =
     [0x418, 0x441, 0x43f, 0x43e, 0x43b, 0x44c, 0x437, 0x43e, 0x432, 0x430, 0x43d, 0x438,
      0x435] @ ascii '': python3 essentia_analyzer.py <audio_file_path> '' @
     [0x438, 0x43b, 0x438] @ ascii '' --test''"

text \<open>"Parameter 'file' is required" (service line 36).\<close>

definition msg_file_required :: pystr where
  "msg_file_required =
     [0x41f, 0x430, 0x440, 0x430, 0x43c, 0x435, 0x442, 0x440, 0x20, 0x27, 0x66, 0x69,
      0x6c, 0x65, 0x27, 0x20, 0x43e, 0x431, 0x44f, 0x437, 0x430, 0x442, 0x435, 0x43b,
      0x435, 0x43d]"

text \<open>"Field 'file_path' is required" (service line 60).\<close>

definition msg_file_path_required :: pystr where
  "msg_file_path_required =
     [0x41f, 0x43e, 0x43b, 0x435, 0x20, 0x27, 0x66, 0x69, 0x6c, 0x65, 0x5f, 0x70, 0x61,
      0x74, 0x68, 0x27, 0x20, 0x43e, 0x431, 0x44f, 0x437, 0x430, 0x442, 0x435, 0x43b,
      0x44c, 0x43d, 0x43e]"

text \<open>"Invalid JSON format" (service line 67).\<close>

definition msg_bad_json :: pystr where
  "msg_bad_json =
     [0x41d, 0x435, 0x432, 0x435, 0x440, 0x43d, 0x44b, 0x439, 0x20, 0x4a, 0x53, 0x4f,
      0x4e, 0x20, 0x444, 0x43e, 0x440, 0x43c, 0x430, 0x442]"

text \<open>"Endpoint not found" (service lines 42 and 69).\<close>

definition msg_no_endpoint :: pystr where
  "msg_no_endpoint =
     [0x42d, 0x43d, 0x434, 0x43f, 0x43e, 0x438, 0x43d, 0x442, 0x20, 0x43d, 0x435, 0x20,
      0x43d, 0x430, 0x439, 0x434, 0x435, 0x43d]"

text \<open>
  "Error while handling the GET request: " and the same for POST (service lines 45
  and 72); the method name is the parameter.
\<close>

definition msg_request_error :: "string \<Rightarrow> pystr" where
  "msg_request_error method =
     [0x41e, 0x448, 0x438, 0x431, 0x43a, 0x430, 0x20, 0x43f, 0x440, 0x438, 0x20, 0x43e,
      0x431, 0x440, 0x430, 0x431, 0x43e, 0x442, 0x43a, 0x435, 0x20] @ ascii method @
     [0x20, 0x437, 0x430, 0x43f, 0x440, 0x43e, 0x441, 0x430, 0x3a, 0x20]"

text \<open>"Internal server error: " (service lines 46 and 73).\<close>

definition msg_internal_error :: pystr where
  "msg_internal_error =
     [0x412, 0x43d, 0x443, 0x442, 0x440, 0x435, 0x43d, 0x43d, 0x44f, 0x44f, 0x20, 0x43e,
      0x448, 0x438, 0x431, 0x43a, 0x430, 0x20, 0x441, 0x435, 0x440, 0x432, 0x435, 0x440,
      0x430, 0x3a, 0x20]"

text \<open>"The Essentia service works correctly" (service line 89).\<close>

definition msg_healthy :: pystr where
  "msg_healthy =
     [0x421, 0x435, 0x440, 0x432, 0x438, 0x441] @ ascii '' Essentia '' @
     [0x440, 0x430, 0x431, 0x43e, 0x442, 0x430, 0x435, 0x442, 0x20, 0x43a, 0x43e, 0x440,
      0x440, 0x435, 0x43a, 0x442, 0x43d, 0x43e]"

text \<open>The failure shape \<^verbatim>\<open>{"error": message}\<close>.\<close>

definition error_dict :: "pystr \<Rightarrow> pyval" where
  "error_dict message = PDict [(ascii ''error'', PStr message)]"

section \<open>The analysis core\<close>

text \<open>
  Lines 48 to 52 of \<^verbatim>\<open>essentia_analyzer.py\<close> and lines 128 to 132 of
  \<^verbatim>\<open>essentia_service.py\<close>, which are the same text.
\<close>

definition rhythm_regularity :: "pyfloat list \<Rightarrow> pyfloat" where
  "rhythm_regularity beats_intervals =
     (if length beats_intervals > 1
      then py_max (Fin 0) (py_min (Fin 1)
             (fsub (Fin 1) (fdiv (np_std beats_intervals) (np_mean beats_intervals))))
      else Fin 0)"

text \<open>The result dictionary and its wrapping (lines 45 to 63, and 125 to 143).\<close>

definition analysis_result :: "extraction \<Rightarrow> pyval" where
  "analysis_result ex =
     (let beat_timestamps_sec = map PFloat (ex_beats ex);
          result = PDict
            [(ascii ''tempo_bpm'', PFloat (ex_bpm ex)),
             (ascii ''confidence'', PFloat (ex_confidence ex)),
             (ascii ''beat_timestamps_sec'', PList beat_timestamps_sec),
             (ascii ''bpm_intervals'', PList (map PFloat (ex_intervals ex))),
             (ascii ''beats_detected'', PInt (int (length (ex_beats ex)))),
             (ascii ''rhythm_regularity'', PFloat (rhythm_regularity (ex_intervals ex)))]
      in PDict [(ascii ''audio_analysis'', result)])"

text \<open>
  The body of the \<^verbatim>\<open>try\<close> block, the same in both scripts (lines 30 to 63, and 110
  to 143): \<open>Inr\<close> is the dictionary it returns, \<open>Inl\<close> the exception that leaves it.
\<close>

definition analysis_body :: "runtime \<Rightarrow> pyval \<Rightarrow> py_exc + pyval" where
  "analysis_body rt audio_path =
     (case path_exists rt audio_path of
        Inl e \<Rightarrow> Inl e
      | Inr found \<Rightarrow>
          if \<not> found then Inr (error_dict (msg_not_found @ fmt_value rt audio_path))
          else
            (case mono_loader rt audio_path of
               Inl e \<Rightarrow> Inl e
             | Inr audio \<Rightarrow>
                 if length audio = 0 then Inr (error_dict msg_empty_audio)
                 else
                   (case rhythm_extractor rt audio of
                      Inl e \<Rightarrow> Inl e
                    | Inr ex \<Rightarrow> Inr (analysis_result ex))))"

section \<open>The command-line script \<^verbatim>\<open>essentia_analyzer.py\<close>\<close>

definition analyze_audio :: "runtime \<Rightarrow> pyval \<Rightarrow> pyval" where
  "analyze_audio rt audio_path =
     (case analysis_body rt audio_path of
        Inr d \<Rightarrow> d
      | Inl e \<Rightarrow> error_dict (msg_analysis_error @ exc_str e))"

definition test_essentia :: "runtime \<Rightarrow> pyval" where
  "test_essentia rt =
     (case probe rt of
        None \<Rightarrow> PDict [(ascii ''status'', PStr (ascii ''ok'')),
                       (ascii ''message'', PStr msg_available)]
      | Some e \<Rightarrow> error_dict (msg_unavailable @ ascii '': '' @ exc_str e))"

text \<open>
  A run of the process: the JSON documents printed to standard output, in order, and
  the exit status. \<open>argv\<close> is \<^verbatim>\<open>sys.argv\<close>, the script's name first.

  The usage error (line 86) and the import error (line 16) are printed with
  \<^verbatim>\<open>json.dumps\<close> in its default mode, which escapes everything above ASCII, so these
  two prints go through. The result (line 95) is printed with
  \<^verbatim>\<open>ensure_ascii=False\<close>: when standard output cannot encode its text, \<^verbatim>\<open>print\<close>
  raises, nothing catches the exception, and the interpreter ends the process with
  status 1 and nothing printed.
\<close>

record process_result =
  stdout :: "pyval list"
  exit_status :: nat

definition main :: "runtime \<Rightarrow> pystr list \<Rightarrow> process_result" where
  "main rt argv =
     (if length argv < 2 then \<lparr>stdout = [error_dict msg_usage], exit_status = 1\<rparr>
      else
        (let result = (if argv ! 1 = ascii ''--test'' then test_essentia rt
                       else analyze_audio rt (PStr (argv ! 1)))
         in if printable rt (text_chars result)
            then \<lparr>stdout = [result], exit_status = 0\<rparr>
            else \<lparr>stdout = [], exit_status = 1\<rparr>))"

text \<open>
  The script as a whole: the import at lines 12 to 17 runs first and ends the process
  when it fails; otherwise \<^verbatim>\<open>main()\<close> runs.
\<close>

definition essentia_analyzer :: "runtime \<Rightarrow> pystr list \<Rightarrow> process_result" where
  "essentia_analyzer rt argv =
     (if \<not> essentia_imported rt
      then \<lparr>stdout = [error_dict msg_not_installed], exit_status = 1\<rparr>
      else main rt argv)"

section \<open>The HTTP service \<^verbatim>\<open>essentia_service.py\<close>\<close>

text \<open>
  The handler object of one request, as the base class sets it up:
  \<^verbatim>\<open>self.requestline\<close>, \<^verbatim>\<open>self.command\<close>, \<^verbatim>\<open>self.path\<close>, what
  \<^verbatim>\<open>urlparse(self.path)\<close> gives (it raises, or gives a path and a query string, of
  which \<^verbatim>\<open>parse_qs\<close> makes a dictionary from names to lists of values), the outcome
  of \<^verbatim>\<open>int(self.headers['Content-Length'])\<close>, and what becomes of the bytes read from
  the body: they are not UTF-8 (\<^verbatim>\<open>decode\<close> raises \<^verbatim>\<open>UnicodeDecodeError\<close> with the
  given message), they are not JSON (\<^verbatim>\<open>json.loads\<close> raises \<^verbatim>\<open>JSONDecodeError\<close>),
  or they are the JSON text of a value.
\<close>

datatype body_text = NotUtf8 pystr | NotJson pystr | Json pyval

record request =
  req_line :: pystr
  req_command :: pystr
  req_path :: pystr
  req_url :: "py_exc + pystr \<times> (pystr \<times> pystr list) list"
  req_content_length :: "py_exc + int"
  req_body :: body_text

text \<open>
  \<^verbatim>\<open>log_message(format, *args)\<close> prints \<^verbatim>\<open>format % args\<close> after a time stamp (which
  is ASCII and left out here), and \<^verbatim>\<open>log_error\<close> of the base class passes its
  arguments on to it. The two scripts call \<^verbatim>\<open>log_error\<close> with a format and no further
  arguments. The result is the exception raised, if any.
\<close>

definition log_message :: "runtime \<Rightarrow> pystr \<Rightarrow> py_exc option" where
  "log_message rt format =
     (case percent_format format of
        Inl e \<Rightarrow> Some e
      | Inr text \<Rightarrow> print_text rt text)"

definition log_error :: "runtime \<Rightarrow> pystr \<Rightarrow> py_exc option" where
  "log_error rt format = log_message rt format"

text \<open>
  \<^verbatim>\<open>log_request(code)\<close> of the base class, which \<^verbatim>\<open>send_response\<close> calls first:
  \<^verbatim>\<open>log_message('"%s" %s %s', self.requestline, str(code), '-')\<close>. The format gets
  its three arguments, so only the print can fail. Status codes have three digits.
\<close>

definition status_text :: "nat \<Rightarrow> pystr" where
  "status_text code = map (\<lambda>d. 48 + d) [code div 100 mod 10, code div 10 mod 10, code mod 10]"

definition log_request :: "runtime \<Rightarrow> request \<Rightarrow> nat \<Rightarrow> py_exc option" where
  "log_request rt self code =
     print_text rt ([34] @ req_line self @ [34, 32] @ status_text code @ ascii '' -'')"

definition service_analyze_audio :: "runtime \<Rightarrow> pyval \<Rightarrow> py_exc + pyval" where
  "service_analyze_audio rt audio_path =
     (if \<not> essentia_imported rt then Inr (error_dict msg_not_installed)
      else
        (case analysis_body rt audio_path of
           Inr d \<Rightarrow> Inr d
         | Inl e \<Rightarrow>
             (let error_msg = msg_analysis_error @ exc_str e
              in case log_error rt (error_msg @ [10] @ format_exc rt e) of
                   Some e' \<Rightarrow> Inl e'
                 | None \<Rightarrow> Inr (error_dict error_msg))))"

text \<open>
  What goes onto the connection, in order: a status line with its block of headers,
  the JSON text of a value in UTF-8, or the HTML error page of the base class. Of the
  headers, \<^verbatim>\<open>Server\<close> and \<^verbatim>\<open>Date\<close>, which the base class adds to every response,
  and the \<^verbatim>\<open>Content-Length\<close> of its error page are left out. The connection is not
  buffered: what is written is sent.

  A sending function gives what it wrote and the exception that ended it, if any.
\<close>

datatype wire =
    Head nat "(pystr \<times> pystr) list"
  | JsonBody pyval
  | HtmlBody nat

type_synonym sent = "wire list \<times> py_exc option"

text \<open>\<^verbatim>\<open>try: a\<close> followed by \<^verbatim>\<open>except Exception as e: h e\<close>.\<close>

definition attempt :: "sent \<Rightarrow> (py_exc \<Rightarrow> sent) \<Rightarrow> sent" where
  "attempt a h =
     (case snd a of
        None \<Rightarrow> a
      | Some e \<Rightarrow> (fst a @ fst (h e), snd (h e)))"

text \<open>
  \<^verbatim>\<open>send_json_response\<close> (lines 150 to 158): the status line and the headers are sent
  by \<^verbatim>\<open>end_headers()\<close> before \<^verbatim>\<open>json.dumps\<close> and \<^verbatim>\<open>encode\<close> run, so an encoding
  error leaves a response without its body.
\<close>

definition json_headers :: "(pystr \<times> pystr) list" where
  "json_headers =
     [(ascii ''Content-type'', ascii ''application/json''),
      (ascii ''Access-Control-Allow-Origin'', ascii ''*'')]"

definition send_json_response :: "runtime \<Rightarrow> request \<Rightarrow> pyval \<Rightarrow> nat \<Rightarrow> sent" where
  "send_json_response rt self data code =
     (case log_request rt self code of
        Some e \<Rightarrow> ([], Some e)
      | None \<Rightarrow>
          if utf8_encodable data then ([Head code json_headers, JsonBody data], None)
          else ([Head code json_headers],
                Some (Exc UnicodeEncodeError (utf8_error rt data))))"

definition send_error_response :: "runtime \<Rightarrow> request \<Rightarrow> nat \<Rightarrow> pystr \<Rightarrow> sent" where
  "send_error_response rt self code message =
     send_json_response rt self (error_dict message) code"

definition health_data :: pyval where
  "health_data =
     PDict [(ascii ''status'', PStr (ascii ''healthy'')),
            (ascii ''essentia_available'', PBool True),
            (ascii ''message'', PStr msg_healthy)]"

definition send_health_check :: "runtime \<Rightarrow> request \<Rightarrow> sent" where
  "send_health_check rt self =
     (if \<not> essentia_imported rt then send_error_response rt self 503 msg_unavailable
      else
        attempt
          (case probe rt of
             Some e \<Rightarrow> ([], Some e)
           | None \<Rightarrow> send_json_response rt self health_data 200)
          (\<lambda>e. send_error_response rt self 503 (msg_unavailable @ ascii '': '' @ exc_str e)))"

text \<open>
  The outer \<^verbatim>\<open>except Exception\<close> of both handler methods: it logs, then answers 500.
\<close>

definition internal_error :: "runtime \<Rightarrow> request \<Rightarrow> string \<Rightarrow> py_exc \<Rightarrow> sent" where
  "internal_error rt self method e =
     (case log_error rt (msg_request_error method @ exc_str e) of
        Some e' \<Rightarrow> ([], Some e')
      | None \<Rightarrow> send_error_response rt self 500 (msg_internal_error @ exc_str e))"

text \<open>The \<^verbatim>\<open>try\<close> block of \<^verbatim>\<open>do_GET\<close> (lines 27 to 42).\<close>

definition get_body :: "runtime \<Rightarrow> request \<Rightarrow> sent" where
  "get_body rt self =
     (case req_url self of
        Inl e \<Rightarrow> ([], Some e)
      | Inr (path, query_params) \<Rightarrow>
          if path = ascii ''/health'' then send_health_check rt self
          else if path = ascii ''/analyze'' then
            (case map_of query_params (ascii ''file'') of
               None \<Rightarrow> send_error_response rt self 400 msg_file_required
             | Some [] \<Rightarrow> ([], Some (Exc IndexError (ascii ''list index out of range'')))
             | Some (audio_path # _) \<Rightarrow>
                 if audio_path = [] then send_error_response rt self 400 msg_file_required
                 else
                   (case service_analyze_audio rt (PStr audio_path) of
                      Inl e \<Rightarrow> ([], Some e)
                    | Inr result \<Rightarrow> send_json_response rt self result 200))
          else send_error_response rt self 404 msg_no_endpoint)"

definition do_GET :: "runtime \<Rightarrow> request \<Rightarrow> sent" where
  "do_GET rt self = attempt (get_body rt self) (internal_error rt self ''GET'')"

text \<open>
  The inner \<^verbatim>\<open>try\<close> block of \<^verbatim>\<open>do_POST\<close> (lines 56 to 64). \<^verbatim>\<open>data.get\<close> exists
  only on a dictionary; on any other value the attribute lookup raises.
\<close>

definition no_get_attribute :: "pyval \<Rightarrow> py_exc" where
  "no_get_attribute data =
     Exc AttributeError
       ([39] @ type_name data @ [39] @ ascii '' object has no attribute '' @
        [39] @ ascii ''get'' @ [39])"

definition post_inner :: "runtime \<Rightarrow> request \<Rightarrow> sent" where
  "post_inner rt self =
     (case req_body self of
        NotUtf8 m \<Rightarrow> ([], Some (Exc UnicodeDecodeError m))
      | NotJson m \<Rightarrow> ([], Some (Exc JSONDecodeError m))
      | Json data \<Rightarrow>
          (case data of
             PDict kvs \<Rightarrow>
               (let audio_path = (case map_of kvs (ascii ''file_path'') of
                                    None \<Rightarrow> PNone
                                  | Some v \<Rightarrow> v)
                in if \<not> truthy audio_path
                   then send_error_response rt self 400 msg_file_path_required
                   else
                     (case service_analyze_audio rt audio_path of
                        Inl e \<Rightarrow> ([], Some e)
                      | Inr result \<Rightarrow> send_json_response rt self result 200))
           | _ \<Rightarrow> ([], Some (no_get_attribute data))))"

text \<open>
  The outer \<^verbatim>\<open>try\<close> block of \<^verbatim>\<open>do_POST\<close> (lines 51 to 69), with the
  \<^verbatim>\<open>except json.JSONDecodeError\<close> of the inner one.
\<close>

definition post_body :: "runtime \<Rightarrow> request \<Rightarrow> sent" where
  "post_body rt self =
     (if req_path self = ascii ''/analyze'' then
        (case req_content_length self of
           Inl e \<Rightarrow> ([], Some e)
         | Inr n \<Rightarrow>
             attempt (post_inner rt self)
               (\<lambda>e. if exc_cls e = JSONDecodeError
                    then send_error_response rt self 400 msg_bad_json
                    else ([], Some e)))
      else send_error_response rt self 404 msg_no_endpoint)"

definition do_POST :: "runtime \<Rightarrow> request \<Rightarrow> sent" where
  "do_POST rt self = attempt (post_body rt self) (internal_error rt self ''POST'')"




section \<open>Sample environments\<close>

text \<open>
  An engine that finds three beats half a second apart in the file \<^verbatim>\<open>a.wav\<close>, and
  no other file. Standard output is UTF-8 with the strict error handler, which encodes
  everything but surrogates. The message of the encoding error is the one Python gives
  for the text \<^verbatim>\<open>{"error": "..."}\<close> whose message is "Audio file not found: " and one
  surrogate, the only text the samples fail to encode:
  \<^verbatim>\<open>'utf-8' codec can't encode character '\ud800' in position 33: surrogates not allowed\<close>.
\<close>

definition surrogate_message :: pystr where
  "surrogate_message =
     [39] @ ascii ''utf-8'' @ [39] @ ascii '' codec can'' @ [39] @
     ascii ''t encode character '' @ [39, 92] @ ascii ''ud800'' @ [39] @
     ascii '' in position 33: surrogates not allowed''"

definition demo_extraction :: extraction where
  "demo_extraction =
     \<lparr>ex_bpm = Fin 120,
      ex_beats = [Fin (1 / 2), Fin 1, Fin (3 / 2)],
      ex_confidence = Fin 3,
      ex_intervals = [Fin (1 / 2), Fin (1 / 2)]\<rparr>"

definition demo_rt :: runtime where
  "demo_rt =
     \<lparr>essentia_imported = True,
      path_exists = (\<lambda>p. Inr (p = PStr (ascii ''a.wav''))),
      is_file = (\<lambda>p. p = PStr (ascii ''a.wav'')),
      mono_loader = (\<lambda>p. Inr [Fin 0, Fin 1]),
      rhythm_extractor = (\<lambda>audio. Inr demo_extraction),
      probe = None,
      format_exc = (\<lambda>e. ascii ''Traceback (most recent call last):''),
      py_str = (\<lambda>v. ascii ''?''),
      py_repr = (\<lambda>s. [39] @ s @ [39]),
      stdout_encodes = (\<lambda>c. \<not> surrogate c),
      stdout_error = (\<lambda>t. ascii ''surrogates not allowed''),
      utf8_error = (\<lambda>v. surrogate_message)\<rparr>"

text \<open>The analysis of \<^verbatim>\<open>a.wav\<close> in that environment.\<close>

definition demo_analysis :: pyval where
  "demo_analysis =
     PDict
       [(ascii ''tempo_bpm'', PFloat (Fin 120)),
        (ascii ''confidence'', PFloat (Fin 3)),
        (ascii ''beat_timestamps_sec'', PList [PFloat (Fin (1 / 2)), PFloat (Fin 1), PFloat (Fin (3 / 2))]),
        (ascii ''bpm_intervals'', PList [PFloat (Fin (1 / 2)), PFloat (Fin (1 / 2))]),
        (ascii ''beats_detected'', PInt 3),
        (ascii ''rhythm_regularity'', PFloat (Fin 1))]"



text \<open>An engine that finds no beat in \<^verbatim>\<open>a.wav\<close>, and so no interval.\<close>

definition silent_extraction :: extraction where
  "silent_extraction =
     \<lparr>ex_bpm = Fin 0, ex_beats = [], ex_confidence = Fin 0, ex_intervals = []\<rparr>"

definition silent_rt :: runtime where
  "silent_rt = demo_rt\<lparr>rhythm_extractor := (\<lambda>audio. Inr silent_extraction)\<rparr>"

definition silent_analysis :: pyval where
  "silent_analysis =
     PDict
       [(ascii ''tempo_bpm'', PFloat (Fin 0)),
        (ascii ''confidence'', PFloat (Fin 0)),
        (ascii ''beat_timestamps_sec'', PList []),
        (ascii ''bpm_intervals'', PList []),
        (ascii ''beats_detected'', PInt 0),
        (ascii ''rhythm_regularity'', PFloat (Fin 0))]"

section \<open>Sample requests\<close>

text \<open>
  \<^verbatim>\<open>GET /analyze?file=<name>\<close> for a name that needs no escaping, \<^verbatim>\<open>GET\<close> of a
  path without a query, \<^verbatim>\<open>POST /analyze\<close> with a body, and a request with another
  method. A GET request has no \<^verbatim>\<open>Content-Length\<close> header and no body; the handler
  does not look at them.
\<close>

definition no_content_length :: py_exc where
  "no_content_length =
     Exc TypeError
       (ascii ''int() argument must be a string, a bytes-like object or a real number, not '' @
        [39] @ ascii ''NoneType'' @ [39])"

definition get_analyze :: "pystr \<Rightarrow> request" where
  "get_analyze name =
     \<lparr>req_line = ascii ''GET /analyze?file='' @ name @ ascii '' HTTP/1.1'',
      req_command = ascii ''GET'',
      req_path = ascii ''/analyze?file='' @ name,
      req_url = Inr (ascii ''/analyze'', [(ascii ''file'', [name])]),
      req_content_length = Inl no_content_length,
      req_body = NotJson (ascii ''Expecting value: line 1 column 1 (char 0)'')\<rparr>"


definition post_analyze :: "int \<Rightarrow> body_text \<Rightarrow> request" where
  "post_analyze n b =
     \<lparr>req_line = ascii ''POST /analyze HTTP/1.1'',
      req_command = ascii ''POST'',
      req_path = ascii ''/analyze'',
      req_url = Inr (ascii ''/analyze'', []),
      req_content_length = Inr n,
      req_body = b\<rparr>"


section \<open>Successful analyses\<close>

text \<open>
  The AnalysisResult of a call, when there is one: the value under
  \<^verbatim>\<open>"audio_analysis"\<close> in what the command-line function or the service method
  returns.
\<close>

definition cli_analysis :: "runtime \<Rightarrow> pyval \<Rightarrow> pyval option" where
  "cli_analysis rt audio_path = dict_get (analyze_audio rt audio_path) (ascii ''audio_analysis'')"

definition service_analysis :: "runtime \<Rightarrow> pyval \<Rightarrow> pyval option" where
  "service_analysis rt audio_path =
     (case service_analyze_audio rt audio_path of
        Inl e \<Rightarrow> None
      | Inr d \<Rightarrow> dict_get d (ascii ''audio_analysis''))"

definition produces :: "runtime \<Rightarrow> pyval \<Rightarrow> pyval \<Rightarrow> bool" where
  "produces rt audio_path res =
     (cli_analysis rt audio_path = Some res \<or> service_analysis rt audio_path = Some res)"

text \<open>
  The contract of the engine that the spec takes for granted: one interval for each
  pair of consecutive beats, and each interval positive.
\<close>

definition one_interval_per_pair :: "runtime \<Rightarrow> bool" where
  "one_interval_per_pair rt =
     (\<forall>audio ex. rhythm_extractor rt audio = Inr ex \<longrightarrow>
        length (ex_intervals ex) = length (ex_beats ex) - 1)"

definition positive_intervals :: "runtime \<Rightarrow> bool" where
  "positive_intervals rt =
     (\<forall>audio ex. rhythm_extractor rt audio = Inr ex \<longrightarrow>
        list_all (\<lambda>x. flt (Fin 0) x) (ex_intervals ex))"


section \<open>Lemmas\<close>

lemmas float_defs =
  flt_def fgt_def py_min_def py_max_def fneg_def fadd_def fsub_def fsign_def finf_def
  fmul_def fdiv_def fsqrt_def in_unit_def np_sum_def np_mean_def np_std_def
  rhythm_regularity_def

lemma clamp_in_unit: "in_unit (py_max (Fin 0) (py_min (Fin 1) x))"
  by (cases x) (simp_all add: py_max_def py_min_def flt_def fgt_def in_unit_def)


lemma rhythm_regularity_unit: "in_unit (rhythm_regularity xs)"
proof (cases "length xs > 1")
  case True
  then show ?thesis by (simp add: rhythm_regularity_def clamp_in_unit)
next
  case False
  then show ?thesis by (simp add: rhythm_regularity_def in_unit_def)
qed

lemma np_sum_zeros: "list_all (\<lambda>x. x = Fin 0) xs \<Longrightarrow> foldl fadd (Fin 0) xs = Fin 0"
  by (induction xs) (simp_all add: fadd_def)

lemma np_mean_zeros:
  assumes "xs \<noteq> []" "list_all (\<lambda>x. x = Fin 0) xs"
  shows "np_mean xs = Fin 0"
  using assms by (simp add: np_mean_def np_sum_def np_sum_zeros fdiv_def)

lemma deviations_zeros:
  assumes "list_all (\<lambda>x. x = Fin 0) xs"
  shows "list_all (\<lambda>x. x = Fin 0) (map (\<lambda>d. fmul d d) (map (\<lambda>v. fsub v (Fin 0)) xs))"
  using assms by (induction xs) (simp_all add: fsub_def fadd_def fneg_def fmul_def)

lemma np_std_zeros:
  assumes "xs \<noteq> []" "list_all (\<lambda>x. x = Fin 0) xs"
  shows "np_std xs = Fin 0"
proof -
  have m: "np_mean xs = Fin 0" using assms by (rule np_mean_zeros)
  have s: "np_sum (map (\<lambda>d. fmul d d) (map (\<lambda>v. fsub v (Fin 0)) xs)) = Fin 0"
    unfolding np_sum_def using deviations_zeros [OF assms(2)] by (rule np_sum_zeros)
  have "np_std xs = fsqrt (fdiv (Fin 0) (Fin (real (length xs))))"
    unfolding np_std_def Let_def m s ..
  also have "\<dots> = Fin 0"
    using assms(1) by (simp add: fdiv_def fsqrt_def)
  finally show ?thesis .
qed

text \<open>The failure shape has no \<^verbatim>\<open>"audio_analysis"\<close> key, the success shape no \<^verbatim>\<open>"error"\<close> key.\<close>

lemma error_dict_keys:
  "dict_get (error_dict m) (ascii ''audio_analysis'') = None"
  "dict_get (error_dict m) (ascii ''error'') = Some (PStr m)"
  by (simp_all add: error_dict_def dict_get_def ascii_def)

lemma analysis_result_keys:
  "dict_get (analysis_result ex) (ascii ''error'') = None"
  "\<exists>res. dict_get (analysis_result ex) (ascii ''audio_analysis'') = Some res"
  by (simp_all add: analysis_result_def dict_get_def ascii_def Let_def)

text \<open>What the \<^verbatim>\<open>try\<close> block returns is one of the two shapes.\<close>

lemma analysis_body_shapes:
  assumes "analysis_body rt p = Inr d"
  shows "(\<exists>m. d = error_dict m) \<or>
         (\<exists>audio ex. mono_loader rt p = Inr audio \<and>
            rhythm_extractor rt audio = Inr ex \<and> d = analysis_result ex)"
  using assms unfolding analysis_body_def
  by (auto split: sum.splits if_splits)

lemma produces_analysis_result:
  assumes "produces rt p res"
  shows "\<exists>audio ex. mono_loader rt p = Inr audio \<and>
           rhythm_extractor rt audio = Inr ex \<and>
           analysis_result ex = PDict [(ascii ''audio_analysis'', res)]"
proof -
  have key: "\<And>d. dict_get d (ascii ''audio_analysis'') = Some res \<Longrightarrow>
               (\<exists>m. d = error_dict m) \<or>
               (\<exists>audio ex. mono_loader rt p = Inr audio \<and>
                  rhythm_extractor rt audio = Inr ex \<and> d = analysis_result ex) \<Longrightarrow>
               \<exists>audio ex. mono_loader rt p = Inr audio \<and>
                 rhythm_extractor rt audio = Inr ex \<and>
                 analysis_result ex = PDict [(ascii ''audio_analysis'', res)]"
  proof -
    fix d
    assume g: "dict_get d (ascii ''audio_analysis'') = Some res"
      and s: "(\<exists>m. d = error_dict m) \<or>
              (\<exists>audio ex. mono_loader rt p = Inr audio \<and>
                 rhythm_extractor rt audio = Inr ex \<and> d = analysis_result ex)"
    from g have "\<not> (\<exists>m. d = error_dict m)" by (auto simp: error_dict_keys)
    with s obtain audio ex where l: "mono_loader rt p = Inr audio"
      and e: "rhythm_extractor rt audio = Inr ex"
      and d: "d = analysis_result ex" by blast
    from g d have "analysis_result ex = PDict [(ascii ''audio_analysis'', res)]"
      by (simp add: analysis_result_def dict_get_def Let_def)
    with l e show "\<exists>audio ex. mono_loader rt p = Inr audio \<and>
                 rhythm_extractor rt audio = Inr ex \<and>
                 analysis_result ex = PDict [(ascii ''audio_analysis'', res)]" by blast
  qed
  from assms consider (cli) "cli_analysis rt p = Some res"
    | (service) "service_analysis rt p = Some res"
    unfolding produces_def by blast
  then show ?thesis
  proof cases
    case cli
    show ?thesis
    proof (cases "analysis_body rt p")
      case (Inl e)
      with cli show ?thesis
        by (simp add: cli_analysis_def analyze_audio_def error_dict_keys)
    next
      case (Inr d)
      with cli have "dict_get d (ascii ''audio_analysis'') = Some res"
        by (simp add: cli_analysis_def analyze_audio_def)
      then show ?thesis using analysis_body_shapes [OF Inr] by (rule key)
    qed
  next
    case service
    then obtain d where r: "service_analyze_audio rt p = Inr d"
      and g: "dict_get d (ascii ''audio_analysis'') = Some res"
      by (auto simp: service_analysis_def split: sum.splits)
    show ?thesis
    proof (cases "analysis_body rt p")
      case (Inl e)
      with r g show ?thesis
        by (auto simp: service_analyze_audio_def Let_def error_dict_keys
            split: if_splits option.splits)
    next
      case (Inr d')
      with r g have "dict_get d' (ascii ''audio_analysis'') = Some res"
        by (auto simp: service_analyze_audio_def error_dict_keys split: if_splits)
      then show ?thesis using analysis_body_shapes [OF Inr] by (rule key)
    qed
  qed
qed

lemma demo_body:
  "analysis_body demo_rt (PStr (ascii ''a.wav'')) =
     Inr (PDict [(ascii ''audio_analysis'', demo_analysis)])"
  by (simp add: analysis_body_def demo_rt_def analysis_result_def demo_extraction_def
      demo_analysis_def Let_def float_defs)

lemma demo_produces: "produces demo_rt (PStr (ascii ''a.wav'')) demo_analysis"
  by (simp add: produces_def cli_analysis_def analyze_audio_def demo_body dict_get_def)

lemma demo_contract: "one_interval_per_pair demo_rt" "positive_intervals demo_rt"
  by (auto simp: one_interval_per_pair_def positive_intervals_def demo_rt_def
      demo_extraction_def flt_def)

lemma silent_body:
  "analysis_body silent_rt (PStr (ascii ''a.wav'')) =
     Inr (PDict [(ascii ''audio_analysis'', silent_analysis)])"
  by (simp add: analysis_body_def silent_rt_def demo_rt_def analysis_result_def
      silent_extraction_def silent_analysis_def Let_def rhythm_regularity_def)

lemma silent_contract: "one_interval_per_pair silent_rt" "positive_intervals silent_rt"
  by (auto simp: one_interval_per_pair_def positive_intervals_def silent_rt_def
      silent_extraction_def)

text \<open>What decides whether a text can be printed or encoded.\<close>

lemma above_ascii_append: "above_ascii (a @ b) = above_ascii a @ above_ascii b"
  by (simp add: above_ascii_def)

lemma above_ascii_status: "above_ascii (status_text code) = []"
proof -
  have "\<And>n::nat. \<not> 128 \<le> 48 + n mod 10"
  proof -
    fix n :: nat
    have "n mod 10 < 10" by simp
    then show "\<not> 128 \<le> 48 + n mod 10" by arith
  qed
  then show ?thesis by (simp add: above_ascii_def status_text_def)
qed

lemma text_chars_error_dict: "text_chars (error_dict m) = above_ascii m"
  by (simp add: error_dict_def above_ascii_def ascii_def)

lemma log_request_printable:
  assumes "printable rt (above_ascii (req_line self))"
  shows "log_request rt self code = None"
proof -
  have q: "above_ascii [34] = []" "above_ascii [34, 32] = []" "above_ascii (ascii '' -'') = []"
    by (simp_all add: above_ascii_def ascii_def)
  have "above_ascii ([34] @ req_line self @ [34, 32] @ status_text code @ ascii '' -'') =
          above_ascii (req_line self)"
    by (simp only: above_ascii_append above_ascii_status q append_Nil append_Nil2)
  with assms show ?thesis by (simp add: log_request_def print_text_def)
qed

lemma send_json_response_complete:
  assumes "printable rt (above_ascii (req_line self))" and "utf8_encodable data"
  shows "send_json_response rt self data code = ([Head code json_headers, JsonBody data], None)"
  using assms by (simp add: send_json_response_def log_request_printable)

lemma send_error_response_complete:
  assumes "printable rt (above_ascii (req_line self))"
    and "list_all (\<lambda>c. \<not> surrogate c) (above_ascii m)"
  shows "send_error_response rt self code m =
           ([Head code json_headers, JsonBody (error_dict m)], None)"
  unfolding send_error_response_def
  using assms by (intro send_json_response_complete) (simp_all add: utf8_encodable_def text_chars_error_dict)

lemma attempt_done: "snd a = None \<Longrightarrow> attempt a h = a"
  by (simp add: attempt_def)

section \<open>The rhythm regularity\<close>

text \<open>
  Claim C1. For every sequence of intervals, the degenerate ones included (empty, one
  element, all equal, all zero), the rhythm regularity lies in the closed interval from
  0.0 to 1.0, and so does the \<^verbatim>\<open>rhythm_regularity\<close> field of every AnalysisResult
  that the command-line function or the service method produces. The bound comes from
  the two comparisons of the clamp alone, whatever the arithmetic before it gives.
\<close>

theorem rhythm_regularity_in_unit_interval:
  "in_unit (rhythm_regularity intervals) \<and>
   (produces rt p res \<longrightarrow>
      (\<exists>v. dict_get res (ascii ''rhythm_regularity'') = Some (PFloat v) \<and> in_unit v))"
proof -
  have "\<exists>v. dict_get res (ascii ''rhythm_regularity'') = Some (PFloat v) \<and> in_unit v"
    if "produces rt p res"
  proof -
    from that obtain ex
      where "analysis_result ex = PDict [(ascii ''audio_analysis'', res)]"
      using produces_analysis_result by blast
    then have "dict_get res (ascii ''rhythm_regularity'') =
                 Some (PFloat (rhythm_regularity (ex_intervals ex)))"
      by (auto simp: analysis_result_def Let_def dict_get_def ascii_def)
    then show ?thesis using rhythm_regularity_unit by blast
  qed
  then show ?thesis using rhythm_regularity_unit by blast
qed

theorem rhythm_regularity_in_unit_interval_witness:
  "in_unit (rhythm_regularity []) \<and>
   in_unit (rhythm_regularity [Fin 7]) \<and>
   in_unit (rhythm_regularity [Fin 0, Fin 0]) \<and>
   produces demo_rt (PStr (ascii ''a.wav'')) demo_analysis \<and>
   dict_get demo_analysis (ascii ''rhythm_regularity'') = Some (PFloat (Fin 1)) \<and>
   in_unit (Fin 1)"
  using rhythm_regularity_in_unit_interval [of "[]" demo_rt "PStr (ascii ''a.wav'')" demo_analysis]
    rhythm_regularity_in_unit_interval [of "[Fin 7]" demo_rt "PStr (ascii ''a.wav'')" demo_analysis]
    rhythm_regularity_in_unit_interval [of "[Fin 0, Fin 0]" demo_rt "PStr (ascii ''a.wav'')" demo_analysis]
    demo_produces
  by (simp add: demo_analysis_def dict_get_def ascii_def in_unit_def)



text \<open>
  Claim C10. When the engine returns two or more intervals that are all zero, their
  mean is zero, 1.0 minus the standard deviation over the mean is NaN, and the clamp
  turns that NaN into 1.0 (not into 0.0): \<^verbatim>\<open>min\<close> and \<^verbatim>\<open>max\<close> keep their first
  argument when the second is NaN, since every comparison with NaN is false.
\<close>

theorem all_zero_intervals_give_one:
  assumes "2 \<le> length xs" and "list_all (\<lambda>x. x = Fin 0) xs"
  shows "np_mean xs = Fin 0 \<and>
         fsub (Fin 1) (fdiv (np_std xs) (np_mean xs)) = NaN \<and>
         (\<forall>a. py_min a NaN = a \<and> py_max a NaN = a) \<and>
         rhythm_regularity xs = Fin 1 \<and>
         rhythm_regularity xs \<noteq> Fin 0"
proof -
  from assms(1) have ne: "xs \<noteq> []" by auto
  have m: "np_mean xs = Fin 0" using ne assms(2) by (rule np_mean_zeros)
  have s: "np_std xs = Fin 0" using ne assms(2) by (rule np_std_zeros)
  have r: "fsub (Fin 1) (fdiv (np_std xs) (np_mean xs)) = NaN"
    by (simp add: m s fdiv_def fsub_def fadd_def fneg_def)
  have k: "\<forall>a. py_min a NaN = a \<and> py_max a NaN = a"
    by (simp add: py_min_def py_max_def flt_def fgt_def split: pyfloat.splits)
  have "rhythm_regularity xs = py_max (Fin 0) (py_min (Fin 1) NaN)"
    using assms(1) r by (simp add: rhythm_regularity_def)
  also have "\<dots> = Fin 1"
    by (simp add: py_min_def py_max_def flt_def fgt_def)
  finally show ?thesis using m r k by simp
qed

theorem all_zero_intervals_give_one_witness:
  "2 \<le> length [Fin 0, Fin 0] \<and> list_all (\<lambda>x. x = Fin 0) [Fin 0, Fin 0] \<and>
   np_mean [Fin 0, Fin 0] = Fin 0 \<and> rhythm_regularity [Fin 0, Fin 0] = Fin 1"
  using all_zero_intervals_give_one [of "[Fin 0, Fin 0]"] by simp

section \<open>The fields of an AnalysisResult\<close>

text \<open>
  Claim C4. In every AnalysisResult produced, \<^verbatim>\<open>beats_detected\<close> is the length of
  \<^verbatim>\<open>beat_timestamps_sec\<close>. When the engine returns one interval for each pair of
  consecutive beats, \<^verbatim>\<open>beats_detected\<close> is the number of intervals plus one whenever
  it is at least 1, and there are no intervals whenever it is at most 1. The intervals
  are the field the source names \<^verbatim>\<open>bpm_intervals\<close>.
\<close>

theorem beat_counts_agree:
  assumes "produces rt p res"
  shows "\<exists>n ts iv.
           dict_get res (ascii ''beats_detected'') = Some (PInt (int n)) \<and>
           dict_get res (ascii ''beat_timestamps_sec'') = Some (PList ts) \<and>
           dict_get res (ascii ''bpm_intervals'') = Some (PList iv) \<and>
           n = length ts \<and>
           (one_interval_per_pair rt \<longrightarrow>
              (1 \<le> n \<longrightarrow> n = length iv + 1) \<and> (n \<le> 1 \<longrightarrow> iv = []))"
proof -
  from assms obtain audio ex where e: "rhythm_extractor rt audio = Inr ex"
    and r: "analysis_result ex = PDict [(ascii ''audio_analysis'', res)]"
    using produces_analysis_result by blast
  from r have res: "res = PDict
            [(ascii ''tempo_bpm'', PFloat (ex_bpm ex)),
             (ascii ''confidence'', PFloat (ex_confidence ex)),
             (ascii ''beat_timestamps_sec'', PList (map PFloat (ex_beats ex))),
             (ascii ''bpm_intervals'', PList (map PFloat (ex_intervals ex))),
             (ascii ''beats_detected'', PInt (int (length (ex_beats ex)))),
             (ascii ''rhythm_regularity'', PFloat (rhythm_regularity (ex_intervals ex)))]"
    by (simp add: analysis_result_def Let_def)
  have n: "dict_get res (ascii ''beats_detected'') = Some (PInt (int (length (ex_beats ex))))"
    unfolding res by (simp add: dict_get_def ascii_def)
  have ts: "dict_get res (ascii ''beat_timestamps_sec'') = Some (PList (map PFloat (ex_beats ex)))"
    unfolding res by (simp add: dict_get_def ascii_def)
  have iv: "dict_get res (ascii ''bpm_intervals'') = Some (PList (map PFloat (ex_intervals ex)))"
    unfolding res by (simp add: dict_get_def ascii_def)
  have c: "one_interval_per_pair rt \<longrightarrow>
             (1 \<le> length (ex_beats ex) \<longrightarrow>
                length (ex_beats ex) = length (map PFloat (ex_intervals ex)) + 1) \<and>
             (length (ex_beats ex) \<le> 1 \<longrightarrow> map PFloat (ex_intervals ex) = [])"
  proof
    assume "one_interval_per_pair rt"
    with e have "length (ex_intervals ex) = length (ex_beats ex) - 1"
      unfolding one_interval_per_pair_def by blast
    then show "(1 \<le> length (ex_beats ex) \<longrightarrow>
                length (ex_beats ex) = length (map PFloat (ex_intervals ex)) + 1) \<and>
             (length (ex_beats ex) \<le> 1 \<longrightarrow> map PFloat (ex_intervals ex) = [])"
      by auto
  qed
  have l: "length (ex_beats ex) = length (map PFloat (ex_beats ex))" by simp
  from n ts iv l c show ?thesis by blast
qed

theorem beat_counts_agree_witness:
  "produces demo_rt (PStr (ascii ''a.wav'')) demo_analysis \<and>
   one_interval_per_pair demo_rt \<and>
   (1::nat) \<le> 3 \<and>
   (3::nat) = length [PFloat (Fin (1 / 2)), PFloat (Fin (1 / 2))] + 1 \<and>
   (3::nat) = length [PFloat (Fin (1 / 2)), PFloat (Fin 1), PFloat (Fin (3 / 2))] \<and>
   dict_get demo_analysis (ascii ''beats_detected'') = Some (PInt 3) \<and>
   dict_get demo_analysis (ascii ''beat_timestamps_sec'') =
     Some (PList [PFloat (Fin (1 / 2)), PFloat (Fin 1), PFloat (Fin (3 / 2))]) \<and>
   dict_get demo_analysis (ascii ''bpm_intervals'') =
     Some (PList [PFloat (Fin (1 / 2)), PFloat (Fin (1 / 2))])"
  using beat_counts_agree [OF demo_produces] demo_produces demo_contract(1)
  by (simp add: demo_analysis_def dict_get_def ascii_def)

text \<open>
  Claim C8, as stated, fails twice. The AnalysisResult has no field named
  \<^verbatim>\<open>beat_intervals\<close>: the analysis of \<^verbatim>\<open>a.wav\<close> in the sample environment, whose
  engine keeps the contract, shows it. And when the engine finds no beat, it returns no
  interval, so the intervals are 0 in number and not
  \<^verbatim>\<open>len(beat_timestamps_sec) - 1\<close>, which is -1.
\<close>

theorem beat_intervals_field_counterexample:
  "analyze_audio demo_rt (PStr (ascii ''a.wav'')) =
     PDict [(ascii ''audio_analysis'', demo_analysis)] \<and>
   service_analyze_audio demo_rt (PStr (ascii ''a.wav'')) =
     Inr (PDict [(ascii ''audio_analysis'', demo_analysis)]) \<and>
   one_interval_per_pair demo_rt \<and> positive_intervals demo_rt \<and>
   dict_get demo_analysis (ascii ''beat_intervals'') = None \<and>
   analyze_audio silent_rt (PStr (ascii ''a.wav'')) =
     PDict [(ascii ''audio_analysis'', silent_analysis)] \<and>
   one_interval_per_pair silent_rt \<and> positive_intervals silent_rt \<and>
   dict_get silent_analysis (ascii ''bpm_intervals'') = Some (PList []) \<and>
   dict_get silent_analysis (ascii ''beat_timestamps_sec'') = Some (PList []) \<and>
   int (length ([] :: pyval list)) \<noteq> int (length ([] :: pyval list)) - 1"
  using demo_contract silent_contract
  by (simp add: analyze_audio_def service_analyze_audio_def demo_body silent_body)
     (simp add: demo_rt_def demo_analysis_def silent_analysis_def dict_get_def ascii_def)

text \<open>
  Claim C8, amended. Every AnalysisResult produced carries a field named
  \<^verbatim>\<open>bpm_intervals\<close>, and none named \<^verbatim>\<open>beat_intervals\<close>. It holds, in order, the
  intervals that the engine returned for the audio loaded from the path. When the
  engine returns one interval for each pair of consecutive beats, their number is the
  length of \<^verbatim>\<open>beat_timestamps_sec\<close> minus one if there is a beat, and zero if there
  is none; when the engine returns positive intervals, each of them is positive.
\<close>

theorem bpm_intervals_field:
  assumes "produces rt p res"
  shows "\<exists>audio ex ts.
           mono_loader rt p = Inr audio \<and>
           rhythm_extractor rt audio = Inr ex \<and>
           dict_get res (ascii ''bpm_intervals'') = Some (PList (map PFloat (ex_intervals ex))) \<and>
           dict_get res (ascii ''beat_intervals'') = None \<and>
           dict_get res (ascii ''beat_timestamps_sec'') = Some (PList ts) \<and>
           (one_interval_per_pair rt \<longrightarrow>
              int (length (ex_intervals ex)) =
                (if 1 \<le> length ts then int (length ts) - 1 else 0)) \<and>
           (positive_intervals rt \<longrightarrow> list_all (\<lambda>x. flt (Fin 0) x) (ex_intervals ex))"
proof -
  from assms obtain audio ex where l: "mono_loader rt p = Inr audio"
    and e: "rhythm_extractor rt audio = Inr ex"
    and r: "analysis_result ex = PDict [(ascii ''audio_analysis'', res)]"
    using produces_analysis_result by blast
  from r have res: "res = PDict
            [(ascii ''tempo_bpm'', PFloat (ex_bpm ex)),
             (ascii ''confidence'', PFloat (ex_confidence ex)),
             (ascii ''beat_timestamps_sec'', PList (map PFloat (ex_beats ex))),
             (ascii ''bpm_intervals'', PList (map PFloat (ex_intervals ex))),
             (ascii ''beats_detected'', PInt (int (length (ex_beats ex)))),
             (ascii ''rhythm_regularity'', PFloat (rhythm_regularity (ex_intervals ex)))]"
    by (simp add: analysis_result_def Let_def)
  have iv: "dict_get res (ascii ''bpm_intervals'') = Some (PList (map PFloat (ex_intervals ex)))"
    unfolding res by (simp add: dict_get_def ascii_def)
  have no: "dict_get res (ascii ''beat_intervals'') = None"
    unfolding res by (simp add: dict_get_def ascii_def)
  have ts: "dict_get res (ascii ''beat_timestamps_sec'') = Some (PList (map PFloat (ex_beats ex)))"
    unfolding res by (simp add: dict_get_def ascii_def)
  have len: "one_interval_per_pair rt \<longrightarrow>
               int (length (ex_intervals ex)) =
                 (if 1 \<le> length (map PFloat (ex_beats ex))
                  then int (length (map PFloat (ex_beats ex))) - 1 else 0)"
  proof
    assume "one_interval_per_pair rt"
    with e have "length (ex_intervals ex) = length (ex_beats ex) - 1"
      unfolding one_interval_per_pair_def by blast
    then show "int (length (ex_intervals ex)) =
                 (if 1 \<le> length (map PFloat (ex_beats ex))
                  then int (length (map PFloat (ex_beats ex))) - 1 else 0)"
      by auto
  qed
  have pos: "positive_intervals rt \<longrightarrow> list_all (\<lambda>x. flt (Fin 0) x) (ex_intervals ex)"
    using e unfolding positive_intervals_def by blast
  from l e iv no ts len pos show ?thesis by blast
qed

theorem bpm_intervals_field_witness:
  "produces demo_rt (PStr (ascii ''a.wav'')) demo_analysis \<and>
   one_interval_per_pair demo_rt \<and> positive_intervals demo_rt \<and>
   mono_loader demo_rt (PStr (ascii ''a.wav'')) = Inr [Fin 0, Fin 1] \<and>
   rhythm_extractor demo_rt [Fin 0, Fin 1] = Inr demo_extraction \<and>
   dict_get demo_analysis (ascii ''bpm_intervals'') =
     Some (PList (map PFloat (ex_intervals demo_extraction))) \<and>
   dict_get demo_analysis (ascii ''beat_intervals'') = None \<and>
   int (length (ex_intervals demo_extraction)) = 3 - 1 \<and>
   list_all (\<lambda>x. flt (Fin 0) x) (ex_intervals demo_extraction)"
  using bpm_intervals_field [OF demo_produces] demo_produces demo_contract
  by (simp add: demo_analysis_def dict_get_def ascii_def demo_rt_def demo_extraction_def
      flt_def)

section \<open>Faults and the two result shapes\<close>

text \<open>
  The command-line function always returns, and what it returns has exactly one of the
  keys \<^verbatim>\<open>"error"\<close> and \<^verbatim>\<open>"audio_analysis"\<close>, whatever the engine does.
\<close>

lemma analyze_audio_one_shape:
  "(\<exists>m. analyze_audio rt p = error_dict m) \<or> (\<exists>ex. analyze_audio rt p = analysis_result ex)"
proof (cases "analysis_body rt p")
  case (Inl e)
  then have "analyze_audio rt p = error_dict (msg_analysis_error @ exc_str e)"
    by (simp add: analyze_audio_def)
  then show ?thesis by blast
next
  case (Inr d)
  from analysis_body_shapes [OF Inr] show ?thesis
    using Inr by (auto simp: analyze_audio_def)
qed

lemma analyze_audio_exclusive:
  "(dict_get (analyze_audio rt p) (ascii ''error'') = None) \<noteq>
   (dict_get (analyze_audio rt p) (ascii ''audio_analysis'') = None)"
  using analyze_audio_one_shape [of rt p] analysis_result_keys
  by (auto simp: error_dict_keys)


text \<open>
  An environment in which the file exists and the loader raises an exception whose
  message is \<^verbatim>\<open>100%\<close>.
\<close>

definition faulty_rt :: runtime where
  "faulty_rt = demo_rt\<lparr>mono_loader := (\<lambda>p. Inl (Exc EngineError (ascii ''100%'')))\<rparr>"

text \<open>
  Claim C3 holds for the command-line function (\<open>analyze_audio_one_shape\<close> above) and
  fails for the service method. Its \<^verbatim>\<open>except\<close> block passes the message to
  \<^verbatim>\<open>log_error\<close> as a format string, and \<^verbatim>\<open>log_message\<close> applies \<^verbatim>\<open>%\<close> to it. With
  the message \<^verbatim>\<open>100%\<close> the command-line function returns the error record, while in
  the service the percent sign meets the line break that follows the message, a
  \<^verbatim>\<open>TypeError\<close> leaves \<^verbatim>\<open>analyze_audio\<close>, and the GET handler answers 500 in place
  of 200.
\<close>

theorem service_analyze_audio_fault_escapes:
  "analyze_audio faulty_rt (PStr (ascii ''a.wav'')) =
     error_dict (msg_analysis_error @ ascii ''100%'') \<and>
   service_analyze_audio faulty_rt (PStr (ascii ''a.wav'')) =
     Inl (Exc TypeError (ascii ''not enough arguments for format string'')) \<and>
   do_GET faulty_rt (get_analyze (ascii ''a.wav'')) =
     ([Head 500 json_headers,
       JsonBody (error_dict
         (msg_internal_error @ ascii ''not enough arguments for format string''))],
      None)"
proof -
  have b: "analysis_body faulty_rt (PStr (ascii ''a.wav'')) = Inl (Exc EngineError (ascii ''100%''))"
    by (simp add: analysis_body_def faulty_rt_def demo_rt_def)
  have l: "log_error faulty_rt
             (msg_analysis_error @ exc_str (Exc EngineError (ascii ''100%'')) @ [10] @
              format_exc faulty_rt (Exc EngineError (ascii ''100%''))) =
           Some (Exc TypeError (ascii ''not enough arguments for format string''))"
    by (simp add: log_error_def log_message_def percent_format_def msg_analysis_error_def
        faulty_rt_def demo_rt_def ascii_def directive_def precision_def conversion_def
        read_number_def is_flag_def is_digit_def not_enough_arguments_def)
  have s: "service_analyze_audio faulty_rt (PStr (ascii ''a.wav'')) =
             Inl (Exc TypeError (ascii ''not enough arguments for format string''))"
    using l by (simp add: service_analyze_audio_def b Let_def) (simp add: faulty_rt_def demo_rt_def)
  have a: "analyze_audio faulty_rt (PStr (ascii ''a.wav'')) =
             error_dict (msg_analysis_error @ ascii ''100%'')"
    by (simp add: analyze_audio_def b)
  have g: "log_error faulty_rt
             (msg_request_error ''GET'' @ ascii ''not enough arguments for format string'') = None"
    by (simp add: log_error_def log_message_def percent_format_def msg_request_error_def
        ascii_def print_text_def printable_def above_ascii_def faulty_rt_def demo_rt_def
        surrogate_def)
  have p: "printable faulty_rt (above_ascii (req_line (get_analyze (ascii ''a.wav''))))"
    by (simp add: printable_def above_ascii_def get_analyze_def ascii_def)
  have e: "list_all (\<lambda>c. \<not> surrogate c)
             (above_ascii (msg_internal_error @ ascii ''not enough arguments for format string''))"
    by (simp add: above_ascii_def msg_internal_error_def ascii_def surrogate_def)
  have f: "get_body faulty_rt (get_analyze (ascii ''a.wav'')) =
             ([], Some (Exc TypeError (ascii ''not enough arguments for format string'')))"
    by (simp add: get_body_def get_analyze_def s) (simp add: ascii_def)
  have "do_GET faulty_rt (get_analyze (ascii ''a.wav'')) =
     ([Head 500 json_headers,
       JsonBody (error_dict
         (msg_internal_error @ ascii ''not enough arguments for format string''))],
      None)"
    by (simp add: do_GET_def attempt_def f internal_error_def g
        send_error_response_complete [OF p e])
  with a s show ?thesis by simp
qed

section \<open>A path that does not exist\<close>





section \<open>The exit status of the command line\<close>





section \<open>Validation of POST requests\<close>

text \<open>
  What holds of the validation: on \<^verbatim>\<open>/analyze\<close>, with a readable
  \<^verbatim>\<open>Content-Length\<close> and a request line that the log can print, a body that is UTF-8
  text but not JSON is answered 400, and so is a JSON object without a \<^verbatim>\<open>file_path\<close>
  entry (or with one that counts as false), with the message that the field is
  required. Neither answer depends on the engine, which is not called.
\<close>

lemma post_validation_on_objects:
  assumes "req_path self = ascii ''/analyze''" and "req_content_length self = Inr n"
    and "printable rt (above_ascii (req_line self))"
  shows "req_body self = NotJson m \<longrightarrow>
           do_POST rt self =
             ([Head 400 json_headers, JsonBody (error_dict msg_bad_json)], None)"
    and "req_body self = Json (PDict kvs) \<and> map_of kvs (ascii ''file_path'') = None \<longrightarrow>
           do_POST rt self =
             ([Head 400 json_headers, JsonBody (error_dict msg_file_path_required)], None)"
    and "req_body self = Json (PDict kvs) \<and> map_of kvs (ascii ''file_path'') = Some v \<and>
         \<not> truthy v \<longrightarrow>
           do_POST rt self =
             ([Head 400 json_headers, JsonBody (error_dict msg_file_path_required)], None)"
proof -
  have j: "send_error_response rt self 400 msg_bad_json =
             ([Head 400 json_headers, JsonBody (error_dict msg_bad_json)], None)"
    using assms(3)
    by (intro send_error_response_complete)
       (simp_all add: msg_bad_json_def above_ascii_def surrogate_def)
  have f: "send_error_response rt self 400 msg_file_path_required =
             ([Head 400 json_headers, JsonBody (error_dict msg_file_path_required)], None)"
    using assms(3)
    by (intro send_error_response_complete)
       (simp_all add: msg_file_path_required_def above_ascii_def surrogate_def)
  show "req_body self = NotJson m \<longrightarrow>
           do_POST rt self =
             ([Head 400 json_headers, JsonBody (error_dict msg_bad_json)], None)"
    using assms(1,2)
    by (simp add: do_POST_def post_body_def post_inner_def attempt_def j)
  show "req_body self = Json (PDict kvs) \<and> map_of kvs (ascii ''file_path'') = None \<longrightarrow>
           do_POST rt self =
             ([Head 400 json_headers, JsonBody (error_dict msg_file_path_required)], None)"
    using assms(1,2)
    by (simp add: do_POST_def post_body_def post_inner_def attempt_def Let_def truthy_def f)
  show "req_body self = Json (PDict kvs) \<and> map_of kvs (ascii ''file_path'') = Some v \<and>
         \<not> truthy v \<longrightarrow>
           do_POST rt self =
             ([Head 400 json_headers, JsonBody (error_dict msg_file_path_required)], None)"
    using assms(1,2)
    by (simp add: do_POST_def post_body_def post_inner_def attempt_def Let_def f)
qed

text \<open>
  The message of the \<^verbatim>\<open>UnicodeDecodeError\<close> for the one-byte body \<^verbatim>\<open>0xFF\<close>:
  \<^verbatim>\<open>'utf-8' codec can't decode byte 0xff in position 0: invalid start byte\<close>.
\<close>

definition invalid_start_byte :: pystr where
  "invalid_start_byte =
     [39] @ ascii ''utf-8'' @ [39] @ ascii '' codec can'' @ [39] @
     ascii ''t decode byte 0xff in position 0: invalid start byte''"

text \<open>
  Claim C7 fails on two kinds of body. A well-formed JSON text that is not an object,
  such as \<^verbatim>\<open>[]\<close>, has no \<^verbatim>\<open>file_path\<close> field, and \<^verbatim>\<open>data.get\<close> raises an
  \<^verbatim>\<open>AttributeError\<close> that only the outer handler catches: the answer is 500, not 400
  with the message of the missing field. A body that is not UTF-8 is not well-formed
  JSON, and \<^verbatim>\<open>decode\<close> raises a \<^verbatim>\<open>UnicodeDecodeError\<close>, which is not a
  \<^verbatim>\<open>JSONDecodeError\<close>: the answer is 500 again.
\<close>

theorem post_validation_answers_500:
  "do_POST demo_rt (post_analyze 2 (Json (PList []))) =
     ([Head 500 json_headers,
       JsonBody (error_dict
         (msg_internal_error @ [39] @ ascii ''list'' @ [39] @
          ascii '' object has no attribute '' @ [39] @ ascii ''get'' @ [39]))],
      None) \<and>
   do_POST demo_rt (post_analyze 1 (NotUtf8 invalid_start_byte)) =
     ([Head 500 json_headers,
       JsonBody (error_dict (msg_internal_error @ invalid_start_byte))],
      None)"
proof -
  have p: "\<And>n b. printable demo_rt (above_ascii (req_line (post_analyze n b)))"
    by (simp add: printable_def above_ascii_def post_analyze_def ascii_def)
  have f: "\<And>n b. req_path (post_analyze n b) = ascii ''/analyze''"
    "\<And>n b. req_content_length (post_analyze n b) = Inr n"
    "\<And>n b. req_body (post_analyze n b) = b"
    by (simp_all add: post_analyze_def)
  have l1: "log_error demo_rt
              (msg_request_error ''POST'' @ exc_str (no_get_attribute (PList []))) = None"
    by (simp add: log_error_def log_message_def percent_format_def msg_request_error_def
        no_get_attribute_def type_name_def ascii_def print_text_def printable_def
        above_ascii_def demo_rt_def surrogate_def)
  have l2: "log_error demo_rt (msg_request_error ''POST'' @ invalid_start_byte) = None"
    by (simp add: log_error_def log_message_def percent_format_def msg_request_error_def
        invalid_start_byte_def ascii_def print_text_def printable_def above_ascii_def
        demo_rt_def surrogate_def)
  have e1: "list_all (\<lambda>c. \<not> surrogate c)
              (above_ascii (msg_internal_error @ exc_str (no_get_attribute (PList []))))"
    by (simp add: above_ascii_def msg_internal_error_def no_get_attribute_def type_name_def
        ascii_def surrogate_def)
  have e2: "list_all (\<lambda>c. \<not> surrogate c) (above_ascii (msg_internal_error @ invalid_start_byte))"
    by (simp add: above_ascii_def msg_internal_error_def invalid_start_byte_def ascii_def
        surrogate_def)
  have a: "do_POST demo_rt (post_analyze 2 (Json (PList []))) =
     ([Head 500 json_headers,
       JsonBody (error_dict (msg_internal_error @ exc_str (no_get_attribute (PList []))))],
      None)"
    by (simp add: do_POST_def post_body_def post_inner_def f attempt_def internal_error_def l1
        send_error_response_complete [OF p e1])
       (simp add: no_get_attribute_def)
  have b: "do_POST demo_rt (post_analyze 1 (NotUtf8 invalid_start_byte)) =
     ([Head 500 json_headers,
       JsonBody (error_dict (msg_internal_error @ invalid_start_byte))],
      None)"
    by (simp add: do_POST_def post_body_def post_inner_def f attempt_def internal_error_def l2
        send_error_response_complete [OF p e2])
  from a b show ?thesis
    by (simp add: no_get_attribute_def type_name_def)
qed

section \<open>The response envelope\<close>

























end
